theory Spec2Isabelle
  imports
    Main
    "HOL-Library.Word"
    "HOL-Library.Finite_Map"
    "HOL-Library.Sublist"
    "HOL-Library.Char_ord"
    "HOL-Library.List_Lexorder"
begin

section \<open>Errors\<close>

text \<open>
  Go errors are values.  An error that comes back from the operating system, from a child
  process or from a library (\<^verbatim>\<open>os.Stat\<close>, \<^verbatim>\<open>os.Remove\<close>, \<^verbatim>\<open>cmd.CombinedOutput\<close>,
  \<^verbatim>\<open>internal.RandomString\<close>) is an \<open>oserror\<close>: the text its \<^verbatim>\<open>Error()\<close> method gives and
  whether \<^verbatim>\<open>os.IsNotExist\<close> holds of it.  An error the program builds itself is kept as the
  call that built it: \<^verbatim>\<open>fmt.Errorf(format, operands...)\<close> with the format string and the
  operands not yet rendered, or \<^verbatim>\<open>errors.New(text)\<close>.
\<close>

datatype oserror = OsError (is_not_exist: bool) (Error: string)

datatype error =
    Errorf string "string list"
  | ErrorsNew string
  | Os oserror

section \<open>Splitting strings\<close>

text \<open>
  \<^verbatim>\<open>strings.Split(s, sep)\<close> and \<^verbatim>\<open>bytes.Split(s, sep)\<close> for a separator of one byte: the
  pieces between the occurrences of the separator, one more piece than there are
  occurrences (so the empty string gives one empty piece).
\<close>

fun Split :: "char \<Rightarrow> string \<Rightarrow> string list" where
  "Split sep [] = [[]]"
| "Split sep (x # xs) =
     (if x = sep then [] # Split sep xs
      else (case Split sep xs of [] \<Rightarrow> [[x]] | p # ps \<Rightarrow> (x # p) # ps))"

text \<open>
  \<^verbatim>\<open>strings.SplitN(s, sep, 2)\<close> for a separator of one byte: the whole string when the
  separator does not occur, else the text before its first occurrence and the text after.
\<close>

definition SplitN2 :: "char \<Rightarrow> string \<Rightarrow> string list" where
  "SplitN2 sep s =
     (case dropWhile (\<lambda>c. c \<noteq> sep) s of
        [] \<Rightarrow> [s]
      | _ # rest \<Rightarrow> [takeWhile (\<lambda>c. c \<noteq> sep) s, rest])"

section \<open>The proxy credential parser (internal/client/proxy\_ntlm.go)\<close>

abbreviation backslash :: char where
  "backslash \<equiv> CHR 0x5C"

definition credsFormat :: string where
  "credsFormat = ''DOMAIN'' @ [backslash] @ ''USER:PASS''"

definition parseNTLMCreds :: "string \<Rightarrow> error + (string \<times> string \<times> string)" where
  "parseNTLMCreds creds =
     (if creds = [] then
        Inl (Errorf (''NTLM credentials not provided. Use --ntlm-proxy-creds in format ''
                       @ credsFormat) [])
      else
        (case Split backslash creds of
           [domain, rest] \<Rightarrow>
             (case SplitN2 CHR '':'' rest of
                [user, pass] \<Rightarrow> Inr (domain, user, pass)
              | _ \<Rightarrow>
                Inl (Errorf (''invalid NTLM credentials format. Expected '' @ credsFormat
                               @ '', got %s'') [creds]))
         | _ \<Rightarrow>
           Inl (Errorf (''invalid NTLM credentials format. Expected '' @ credsFormat
                          @ '', got %s'') [creds])))"

section \<open>The artifact cache: data (internal/server/webserver/buildmanager.go)\<close>

text \<open>
  The struct \<^verbatim>\<open>file\<close>.  \<^verbatim>\<open>Hits\<close> is a Go \<^verbatim>\<open>int\<close>, taken here at its width on 64-bit
  hosts: a 64-bit word read in two's complement by \<open>sint\<close>, so that \<^verbatim>\<open>Hits++\<close> wraps.
\<close>

record "file" =
  Path :: string
  Goos :: string
  Goarch :: string
  FileType :: string
  Hits :: "64 word"
  Version :: string

definition zero_file :: "file" where
  "zero_file = \<lparr>Path = [], Goos = [], Goarch = [], FileType = [], Hits = 0, Version = []\<rparr>"

text \<open>
  Indexing a Go map gives the zero value of the element type when the key is missing.
\<close>

definition index_bool :: "(string, bool) fmap \<Rightarrow> string \<Rightarrow> bool" where
  "index_bool m k = (case fmlookup m k of None \<Rightarrow> False | Some b \<Rightarrow> b)"

definition index_file :: "(string, file) fmap \<Rightarrow> string \<Rightarrow> file" where
  "index_file m k = (case fmlookup m k of None \<Rightarrow> zero_file | Some f \<Rightarrow> f)"

subsection \<open>JSON documents\<close>

text \<open>
  The snapshot is the JSON text \<^verbatim>\<open>json.Marshal(cache)\<close> gives.  A JSON text is modelled by
  the document it denotes: quoting, escaping and white space are the library's and are not
  modelled.  Only the kinds of value a snapshot is made of are documents here: objects (the
  members in the order of the text), strings and integer numbers.  The content of a file is
  such a document, or bytes that are not a JSON text.
\<close>

datatype json =
    JString string
  | JNumber int
  | JObject "(string \<times> json) list"

datatype contents =
    Document json
  | NotJson string

datatype json_error = SyntaxError | UnmarshalTypeError

subsection \<open>Effects on the outside world\<close>

text \<open>
  What the program asks of the outside world is recorded, in order, as a list of effects:
  child processes started (program, arguments, and the environment when the program sets
  one), files written (path, content, permission bits), files removed, permission changes,
  directories made, lines printed, and calls to the name completion index
  \<^verbatim>\<open>Autocomplete\<close>, which is another package's.  What the outside world answers is
  an argument of each operation.
\<close>

datatype effect =
    Exec string "string list" "string list option"
  | WriteFile string contents nat
  | Remove string
  | Chmod string nat
  | Mkdir string nat
  | Println string
  | Autocomplete_Add string
  | Autocomplete_Remove string

subsection \<open>The package's variables\<close>

text \<open>
  The variables \<^verbatim>\<open>validPlatforms\<close>, \<^verbatim>\<open>validArchs\<close>, \<^verbatim>\<open>cache\<close> and
  \<^verbatim>\<open>cachePath\<close> of buildmanager.go, with the effects so far.  The lock \<^verbatim>\<open>c\<close> is
  not modelled: every operation below runs alone, from its first statement to its return.
\<close>

record state =
  validPlatforms :: "(string, bool) fmap"
  validArchs :: "(string, bool) fmap"
  cache :: "(string, file) fmap"
  cachePath :: string
  effects :: "effect list"

text \<open>
  What buildmanager.go reads but does not declare: the variables \<^verbatim>\<open>webserverOn\<close>,
  \<^verbatim>\<open>defaultConnectBack\<close>, \<^verbatim>\<open>defaultFingerPrint\<close> and \<^verbatim>\<open>projectRoot\<close> of the same
  package, \<^verbatim>\<open>internal.Version\<close>, \<^verbatim>\<open>runtime.GOOS\<close> and \<^verbatim>\<open>runtime.GOARCH\<close>, and
  two functions of the library whose result depends on the host platform:
  \<^verbatim>\<open>filepath.Join\<close> of two elements, and the glob matcher behind \<^verbatim>\<open>filepath.Match\<close>
  (\<open>None\<close> is \<^verbatim>\<open>ErrBadPattern\<close>).  They are parameters.
\<close>

record host =
  webserverOn :: bool
  defaultConnectBack :: string
  defaultFingerPrint :: string
  projectRoot :: string
  internal_Version :: string
  runtime_GOOS :: string
  runtime_GOARCH :: string
  filepath_Join :: "string \<Rightarrow> string \<Rightarrow> string"
  glob :: "string \<Rightarrow> string \<Rightarrow> bool option"

definition emit :: "effect \<Rightarrow> state \<Rightarrow> state" where
  "emit e s = s\<lparr>effects := effects s @ [e]\<rparr>"

definition cacheDescriptionFile :: string where
  "cacheDescriptionFile = ''description.json''"

text \<open>Permission bits \<^verbatim>\<open>0600\<close> and \<^verbatim>\<open>0700\<close> (octal).\<close>

definition perm_0600 :: nat where
  "perm_0600 = 6 * 64"

definition perm_0700 :: nat where
  "perm_0700 = 7 * 64"

section \<open>Saving and loading the snapshot\<close>

subsection \<open>Strings in JSON: coercion to valid UTF-8\<close>

text \<open>
  \<^verbatim>\<open>encoding/json\<close> writes a Go string as a JSON string "coerced to valid UTF-8,
  replacing invalid bytes with the Unicode replacement rune", and reads a JSON string the
  same way.  \<open>rune_len\<close> is the width \<^verbatim>\<open>utf8.DecodeRuneInString\<close> finds at the head of a
  string, 0 standing for its answer \<^verbatim>\<open>(RuneError, 1)\<close> on bytes that do not start a
  well-formed sequence.
\<close>

definition between :: "nat \<Rightarrow> nat \<Rightarrow> char \<Rightarrow> bool" where
  "between lo hi c = (lo \<le> of_char c \<and> of_char c \<le> hi)"

fun tail_ok :: "nat \<Rightarrow> nat \<Rightarrow> nat \<Rightarrow> string \<Rightarrow> bool" where
  "tail_ok lo hi 0 cs = True"
| "tail_ok lo hi (Suc n) [] = False"
| "tail_ok lo hi (Suc n) (c # cs) = (between lo hi c \<and> tail_ok 0x80 0xBF n cs)"

definition rune_len :: "string \<Rightarrow> nat" where
  "rune_len s =
     (case s of
        [] \<Rightarrow> 0
      | c # cs \<Rightarrow>
        (let b = (of_char c :: nat) in
         if b < 0x80 then 1
         else if 0xC2 \<le> b \<and> b \<le> 0xDF then (if tail_ok 0x80 0xBF 1 cs then 2 else 0)
         else if b = 0xE0 then (if tail_ok 0xA0 0xBF 2 cs then 3 else 0)
         else if b = 0xED then (if tail_ok 0x80 0x9F 2 cs then 3 else 0)
         else if 0xE1 \<le> b \<and> b \<le> 0xEF then (if tail_ok 0x80 0xBF 2 cs then 3 else 0)
         else if b = 0xF0 then (if tail_ok 0x90 0xBF 3 cs then 4 else 0)
         else if 0xF1 \<le> b \<and> b \<le> 0xF3 then (if tail_ok 0x80 0xBF 3 cs then 4 else 0)
         else if b = 0xF4 then (if tail_ok 0x80 0x8F 3 cs then 4 else 0)
         else 0))"

text \<open>The replacement rune U+FFFD in UTF-8.\<close>

definition replacement :: string where
  "replacement = [CHR 0xEF, CHR 0xBF, CHR 0xBD]"

function coerce_utf8 :: "string \<Rightarrow> string" where
  "coerce_utf8 [] = []"
| "coerce_utf8 (c # cs) =
     (if rune_len (c # cs) = 0 then replacement @ coerce_utf8 cs
      else take (rune_len (c # cs)) (c # cs) @ coerce_utf8 (drop (rune_len (c # cs)) (c # cs)))"
  by pat_completeness auto
termination
  by (relation "measure length") auto

subsection \<open>Marshal\<close>

text \<open>
  \<^verbatim>\<open>json.Marshal\<close> of a \<^verbatim>\<open>file\<close>: an object with one member for each field, under the
  field's name, in the order of the declaration.  Of a \<^verbatim>\<open>map[string]file\<close>: an object
  with one member for each key, the keys sorted as byte strings.  Marshal cannot fail on
  these types, so the \<^verbatim>\<open>panic\<close> of \<^verbatim>\<open>writeCache\<close> is not a branch.
\<close>

definition marshal_file :: "file \<Rightarrow> json" where
  "marshal_file f = JObject
     [(''Path'', JString (coerce_utf8 (Path f))),
      (''Goos'', JString (coerce_utf8 (Goos f))),
      (''Goarch'', JString (coerce_utf8 (Goarch f))),
      (''FileType'', JString (coerce_utf8 (FileType f))),
      (''Hits'', JNumber (sint (Hits f))),
      (''Version'', JString (coerce_utf8 (Version f)))]"

definition json_Marshal :: "(string, file) fmap \<Rightarrow> json" where
  "json_Marshal m = JObject
     (map (\<lambda>k. (coerce_utf8 k, marshal_file (index_file m k)))
        (sorted_list_of_fset (fmdom m)))"

definition writeCache :: "host \<Rightarrow> state \<Rightarrow> state" where
  "writeCache h s =
     emit (WriteFile (filepath_Join h (cachePath s) cacheDescriptionFile)
             (Document (json_Marshal (cache s))) perm_0700) s"

subsection \<open>Unmarshal\<close>

text \<open>
  \<^verbatim>\<open>json.Unmarshal\<close> checks the syntax of the whole text first and touches nothing when
  it is not JSON.  A value of the wrong kind for its target is skipped, the target keeps
  what it holds, the first such error is remembered and returned at the end, and the rest
  is still decoded.  A member of an object is stored into the field of that name (the
  names are compared exactly here; the library also accepts a name that differs in case,
  which \<^verbatim>\<open>json.Marshal\<close> never writes), and dropped when there is none.
\<close>

definition first_error :: "json_error option \<Rightarrow> json_error option \<Rightarrow> json_error option" where
  "first_error a b = (case a of None \<Rightarrow> b | Some e \<Rightarrow> Some e)"

definition unmarshal_string :: "json \<Rightarrow> string option" where
  "unmarshal_string v = (case v of JString t \<Rightarrow> Some (coerce_utf8 t) | _ \<Rightarrow> None)"

definition unmarshal_int :: "json \<Rightarrow> 64 word option" where
  "unmarshal_int v =
     (case v of
        JNumber n \<Rightarrow> (if - (2 ^ 63) \<le> n \<and> n < 2 ^ 63 then Some (word_of_int n) else None)
      | _ \<Rightarrow> None)"

definition unmarshal_field :: "string \<times> json \<Rightarrow> file \<times> json_error option \<Rightarrow> file \<times> json_error option" where
  "unmarshal_field member acc =
     (case (member, acc) of ((name, v), (f, err)) \<Rightarrow>
        if name = ''Path'' then
          (case unmarshal_string v of Some t \<Rightarrow> (f\<lparr>Path := t\<rparr>, err)
           | None \<Rightarrow> (f, first_error err (Some UnmarshalTypeError)))
        else if name = ''Goos'' then
          (case unmarshal_string v of Some t \<Rightarrow> (f\<lparr>Goos := t\<rparr>, err)
           | None \<Rightarrow> (f, first_error err (Some UnmarshalTypeError)))
        else if name = ''Goarch'' then
          (case unmarshal_string v of Some t \<Rightarrow> (f\<lparr>Goarch := t\<rparr>, err)
           | None \<Rightarrow> (f, first_error err (Some UnmarshalTypeError)))
        else if name = ''FileType'' then
          (case unmarshal_string v of Some t \<Rightarrow> (f\<lparr>FileType := t\<rparr>, err)
           | None \<Rightarrow> (f, first_error err (Some UnmarshalTypeError)))
        else if name = ''Hits'' then
          (case unmarshal_int v of Some n \<Rightarrow> (f\<lparr>Hits := n\<rparr>, err)
           | None \<Rightarrow> (f, first_error err (Some UnmarshalTypeError)))
        else if name = ''Version'' then
          (case unmarshal_string v of Some t \<Rightarrow> (f\<lparr>Version := t\<rparr>, err)
           | None \<Rightarrow> (f, first_error err (Some UnmarshalTypeError)))
        else (f, err))"

definition unmarshal_file :: "json \<Rightarrow> file \<times> json_error option" where
  "unmarshal_file v =
     (case v of
        JObject members \<Rightarrow> fold unmarshal_field members (zero_file, None)
      | _ \<Rightarrow> (zero_file, Some UnmarshalTypeError))"

text \<open>
  Into a map that is not nil, Unmarshal keeps the entries the map has and stores each
  member of the object under its name, a later member replacing an earlier one of the same
  name.  Every element is decoded into a fresh zero \<^verbatim>\<open>file\<close>.
\<close>

definition unmarshal_entry ::
  "string \<times> json \<Rightarrow> (string, file) fmap \<times> json_error option \<Rightarrow> (string, file) fmap \<times> json_error option" where
  "unmarshal_entry member acc =
     (case (member, acc) of ((k, v), (m, err)) \<Rightarrow>
        (case unmarshal_file v of (f, e) \<Rightarrow> (fmupd (coerce_utf8 k) f m, first_error err e)))"

definition json_Unmarshal ::
  "contents \<Rightarrow> (string, file) fmap \<Rightarrow> json_error option \<times> (string, file) fmap" where
  "json_Unmarshal content m =
     (case content of
        NotJson _ \<Rightarrow> (Some SyntaxError, m)
      | Document (JObject members) \<Rightarrow>
          (case fold unmarshal_entry members (m, None) of (m', err) \<Rightarrow> (err, m'))
      | Document _ \<Rightarrow> (Some UnmarshalTypeError, m))"

subsection \<open>Strings that pass through JSON unchanged\<close>

text \<open>
  A string is valid UTF-8 exactly when the coercion leaves it as it is (a byte that is
  replaced makes the string longer).  A record is exact when its five strings are valid,
  a cache when its keys and records are.
\<close>

definition utf8_valid :: "string \<Rightarrow> bool" where
  "utf8_valid t = (coerce_utf8 t = t)"

definition file_exact :: "file \<Rightarrow> bool" where
  "file_exact f = (utf8_valid (Path f) \<and> utf8_valid (Goos f) \<and> utf8_valid (Goarch f)
     \<and> utf8_valid (FileType f) \<and> utf8_valid (Version f))"

definition snapshot_exact :: "(string, file) fmap \<Rightarrow> bool" where
  "snapshot_exact m = fBall (fmdom m) (\<lambda>k. utf8_valid k \<and> file_exact (index_file m k))"

section \<open>The operations of the cache\<close>

subsection \<open>Build\<close>

text \<open>
  What the outside world answers during one call of \<^verbatim>\<open>Build\<close>: the two calls of
  \<^verbatim>\<open>internal.RandomString(16)\<close> (the second is made only when no name is supplied), the
  output of \<^verbatim>\<open>git describe --tags\<close> or its error, \<^verbatim>\<open>os.Environ()\<close>, and the output
  and error of the compiler.
\<close>

record build_world =
  rand_filename :: "oserror + string"
  rand_name :: "oserror + string"
  git_describe :: "oserror + string"
  os_Environ :: "string list"
  go_build_output :: string
  go_build_err :: "oserror option"

text \<open>Lines 82 to 112: the record \<^verbatim>\<open>f\<close>.\<close>

definition Build_file ::
  "host \<Rightarrow> build_world \<Rightarrow> state \<Rightarrow> string \<Rightarrow> string \<Rightarrow> string \<Rightarrow> bool \<Rightarrow> file" where
  "Build_file h w s filename goos goarch shared =
     (let f_Goos = (if length goos > 0 then goos else runtime_GOOS h);
          f_Goarch = (if length goarch > 0 then goarch else runtime_GOARCH h);
          f_Path = filepath_Join h (cachePath s) filename;
          f_Version = (case git_describe w of
                         Inr repoVersion \<Rightarrow> repoVersion
                       | Inl _ \<Rightarrow> internal_Version h @ '' (guess)'')
      in \<lparr>Path = (if shared then
                    (if f_Goos \<noteq> ''windows'' then f_Path @ ''.so'' else f_Path @ ''.dll'')
                  else f_Path),
          Goos = f_Goos,
          Goarch = f_Goarch,
          FileType = (if shared then ''shared-object'' else ''executable''),
          Hits = 0,
          Version = f_Version\<rparr>)"

text \<open>Lines 101 to 115: the arguments of the compiler.\<close>

definition Build_arguments :: "host \<Rightarrow> file \<Rightarrow> string \<Rightarrow> string \<Rightarrow> bool \<Rightarrow> string list" where
  "Build_arguments h f suppliedConnectBackAdress fingerprint shared =
     [''build'']
     @ (if shared then [''-buildmode=c-shared'', ''-tags=cshared''] else [])
     @ [''-ldflags=-s -w -X main.destination='' @ suppliedConnectBackAdress
          @ '' -X main.fingerprint='' @ fingerprint
          @ '' -X client.Version='' @ Version f]
     @ [''-o'', Path f, filepath_Join h (projectRoot h) ''/cmd/client'']"

text \<open>Lines 127 to 130: the C compiler for native interop.\<close>

definition crossCompiler :: "host \<Rightarrow> file \<Rightarrow> string" where
  "crossCompiler h f =
     (if runtime_GOOS h = ''linux'' \<and> Goos f = ''windows'' \<and> Goarch f = ''amd64''
      then ''x86_64-w64-mingw32-gcc'' else [])"

text \<open>Lines 119 to 136: the environment of the compiler.\<close>

definition Build_env :: "host \<Rightarrow> build_world \<Rightarrow> file \<Rightarrow> bool \<Rightarrow> string list" where
  "Build_env h w f shared =
     os_Environ w
     @ [''GOOS='' @ Goos f]
     @ [''GOARCH='' @ Goarch f]
     @ (if shared then [''CC='' @ crossCompiler h f] else [])
     @ [''CGO_ENABLED='' @ (if shared then ''1'' else ''0'')]"

text \<open>Lines 82 to 151: from the record to the return, once the name is known to be free.\<close>

definition Build_run ::
  "host \<Rightarrow> build_world \<Rightarrow> string \<Rightarrow> string \<Rightarrow> string \<Rightarrow> string \<Rightarrow> string \<Rightarrow> string \<Rightarrow> bool
     \<Rightarrow> state \<Rightarrow> (error + string) \<times> state" where
  "Build_run h w filename goos goarch suppliedConnectBackAdress fingerprint name shared s =
     (let f = Build_file h w s filename goos goarch shared;
          s1 = emit (Exec ''git'' [''describe'', ''--tags''] None) s;
          s2 = emit (Exec ''go''
                  (Build_arguments h f suppliedConnectBackAdress fingerprint shared)
                  (Some (Build_env h w f shared))) s1
      in case go_build_err w of
           Some err \<Rightarrow>
             (Inl (Errorf (''Error: '' @ Error err @ [CHR 0x0A] @ go_build_output w) []), s2)
         | None \<Rightarrow>
             (let s3 = s2\<lparr>cache := fmupd name f (cache s2)\<rparr>;
                  s4 = emit (Chmod (Path f) perm_0600) s3;
                  s5 = emit (Autocomplete_Add name) s4;
                  s6 = writeCache h s5
              in (Inr (''http://'' @ suppliedConnectBackAdress @ ''/'' @ name), s6)))"

definition Build ::
  "host \<Rightarrow> build_world \<Rightarrow> string \<Rightarrow> string \<Rightarrow> string \<Rightarrow> string \<Rightarrow> string \<Rightarrow> bool
     \<Rightarrow> state \<Rightarrow> (error + string) \<times> state" where
  "Build h w goos goarch suppliedConnectBackAdress fingerprint name shared s =
     (if \<not> webserverOn h then
        (Inl (Errorf ''Web server is not enabled.'' []), s)
      else if length goarch \<noteq> 0 \<and> \<not> index_bool (validArchs s) goarch then
        (Inl (Errorf (''GOARCH supplied is not valid: '' @ goarch) []), s)
      else if length goos \<noteq> 0 \<and> \<not> index_bool (validPlatforms s) goos then
        (Inl (Errorf (''GOOS supplied is not valid: '' @ goos) []), s)
      else
        (let suppliedConnectBackAdress' =
               (if length suppliedConnectBackAdress = 0 then defaultConnectBack h
                else suppliedConnectBackAdress);
             fingerprint' =
               (if length fingerprint = 0 then defaultFingerPrint h else fingerprint)
         in case rand_filename w of
              Inl err \<Rightarrow> (Inl (Os err), s)
            | Inr filename \<Rightarrow>
                (case (if length name = 0 then rand_name w else Inr name) of
                   Inl err \<Rightarrow> (Inl (Os err), s)
                 | Inr name' \<Rightarrow>
                     (case fmlookup (cache s) name' of
                        Some _ \<Rightarrow> (Inl (ErrorsNew ''This link name is already in use''), s)
                      | None \<Rightarrow>
                          Build_run h w filename goos goarch suppliedConnectBackAdress'
                            fingerprint' name' shared s))))"

subsection \<open>Get\<close>

definition Get :: "string \<Rightarrow> state \<Rightarrow> (error + file) \<times> state" where
  "Get key s =
     (case fmlookup (cache s) key of
        None \<Rightarrow> (Inl (ErrorsNew (''Unable to find cache entry: '' @ key)), s)
      | Some cacheEntry \<Rightarrow>
          (let cacheEntry' = cacheEntry\<lparr>Hits := Hits cacheEntry + 1\<rparr>
           in (Inr cacheEntry', s\<lparr>cache := fmupd key cacheEntry' (cache s)\<rparr>)))"

subsection \<open>List\<close>

text \<open>
  \<^verbatim>\<open>filepath.Match\<close>: with the empty pattern the loop over the pattern is not entered
  and the answer is whether the name is empty, with no error, on every platform; any other
  pattern is the host's matcher's to decide.
\<close>

definition filepath_Match :: "host \<Rightarrow> string \<Rightarrow> string \<Rightarrow> bool option" where
  "filepath_Match h pattern name =
     (if pattern = [] then Some (name = []) else glob h pattern name)"

text \<open>
  \<^verbatim>\<open>match, _ := filepath.Match(filter, x); match\<close>: the error is dropped, and with an
  error the match is false.
\<close>

definition matches :: "host \<Rightarrow> string \<Rightarrow> string \<Rightarrow> bool" where
  "matches h filter' x = (filepath_Match h filter' x = Some True)"

text \<open>
  The loop of \<^verbatim>\<open>List\<close> over the keys of the cache, given in the order the iteration
  visits them.
\<close>

fun List_loop ::
  "host \<Rightarrow> string \<Rightarrow> (string, file) fmap \<Rightarrow> string list \<Rightarrow> (string, file) fmap
     \<Rightarrow> (string, file) fmap" where
  "List_loop h filter' c [] matchingFiles = matchingFiles"
| "List_loop h filter' c (id' # ids) matchingFiles =
     (if filter' = [] then
        List_loop h filter' c ids (fmupd id' (index_file c id') matchingFiles)
      else if matches h filter' id' then
        List_loop h filter' c ids (fmupd id' (index_file c id') matchingFiles)
      else if matches h filter' (Goos (index_file c id')) then
        List_loop h filter' c ids (fmupd id' (index_file c id') matchingFiles)
      else if matches h filter' (Goarch (index_file c id')) then
        List_loop h filter' c ids (fmupd id' (index_file c id') matchingFiles)
      else List_loop h filter' c ids matchingFiles)"

text \<open>
  Go visits the keys of a map in an order it does not specify; the model visits them
  sorted.  That the result does not depend on the order is \<open>List_loop_lookup\<close> below.
\<close>

definition List :: "host \<Rightarrow> string \<Rightarrow> state \<Rightarrow> error + (string, file) fmap" where
  "List h filter' s =
     (case filepath_Match h filter' [] of
        None \<Rightarrow> Inl (Errorf ''Filter is not well formed'' [])
      | Some _ \<Rightarrow>
          Inr (List_loop h filter' (cache s) (sorted_list_of_fset (fmdom (cache s))) fmempty))"

text \<open>
  The three tests of the loop on one key: the key, the operating system of its record or
  the architecture of its record matches the filter.
\<close>

definition kept :: "host \<Rightarrow> string \<Rightarrow> (string, file) fmap \<Rightarrow> string \<Rightarrow> bool" where
  "kept h filter' c k =
     (matches h filter' k \<or> matches h filter' (Goos (index_file c k))
      \<or> matches h filter' (Goarch (index_file c k)))"

subsection \<open>Delete\<close>

text \<open>The answer of the outside world to \<^verbatim>\<open>os.Remove\<close> is the argument \<open>removed\<close>.\<close>

definition Delete :: "host \<Rightarrow> oserror option \<Rightarrow> string \<Rightarrow> state \<Rightarrow> error option \<times> state" where
  "Delete h removed key s =
     (case fmlookup (cache s) key of
        None \<Rightarrow> (Some (ErrorsNew (''Unable to find cache entry: '' @ key)), s)
      | Some cacheEntry \<Rightarrow>
          (let s1 = s\<lparr>cache := fmdrop key (cache s)\<rparr>;
               s2 = writeCache h s1;
               s3 = emit (Autocomplete_Remove key) s2;
               s4 = emit (Remove (Path cacheEntry)) s3
           in (map_option Os removed, s4)))"

subsection \<open>Startup\<close>

text \<open>
  \<^verbatim>\<open>os.Stat\<close> returns a \<^verbatim>\<open>FileInfo\<close> or an error; with an error the \<^verbatim>\<open>FileInfo\<close> is
  nil.  The variable \<^verbatim>\<open>info\<close> is an option, and calling \<^verbatim>\<open>IsDir\<close> on nil panics.
\<close>

datatype fileinfo = FileInfo (IsDir: bool)

datatype 'a outcome = Returns 'a | Panics string

record startup_world =
  stat_clientSource :: "oserror + fileinfo"
  dist_list_output :: string
  dist_list_err :: "oserror option"
  stat_cPath :: "oserror + fileinfo"
  mkdir_cPath :: "oserror option"
  stat_cPath_again :: "oserror + fileinfo"
  write_test :: "oserror option"
  remove_test :: "oserror option"
  read_description :: "oserror + contents"

definition os_IsNotExist :: "oserror option \<Rightarrow> bool" where
  "os_IsNotExist err = (case err of None \<Rightarrow> False | Some e \<Rightarrow> is_not_exist e)"

definition stat_info :: "oserror + fileinfo \<Rightarrow> fileinfo option" where
  "stat_info r = (case r of Inl _ \<Rightarrow> None | Inr i \<Rightarrow> Some i)"

definition stat_err :: "oserror + fileinfo \<Rightarrow> oserror option" where
  "stat_err r = (case r of Inl e \<Rightarrow> Some e | Inr _ \<Rightarrow> None)"

text \<open>Lines 251 to 259: the target catalog from the lines \<^verbatim>\<open>os/arch\<close> of the tool's output.\<close>

definition catalog_line :: "string \<Rightarrow> state \<Rightarrow> state" where
  "catalog_line line s =
     (case Split CHR ''/'' line of
        [os, arch] \<Rightarrow>
          s\<lparr>validPlatforms := fmupd os True (validPlatforms s),
            validArchs := fmupd arch True (validArchs s)\<rparr>
      | _ \<Rightarrow> s)"

definition load_catalog :: "string \<Rightarrow> state \<Rightarrow> state" where
  "load_catalog output s = fold catalog_line (Split (CHR 0x0A) output) s"

text \<open>Lines 284 to 298: the snapshot, when there is one, and the cache path.\<close>

definition load_cache :: "host \<Rightarrow> startup_world \<Rightarrow> string \<Rightarrow> state \<Rightarrow> state" where
  "load_cache h w cPath s =
     (let s' =
        (case read_description w of
           Inr contents \<Rightarrow>
             (case json_Unmarshal contents (cache s) of
                (None, m) \<Rightarrow>
                  fold (\<lambda>id'. emit (Autocomplete_Add id')) (sorted_list_of_fset (fmdom m))
                    (s\<lparr>cache := m\<rparr>)
              | (Some _, m) \<Rightarrow> emit (Println ''Unable to load cache: '') (s\<lparr>cache := m\<rparr>))
         | Inl _ \<Rightarrow> emit (Println ''Unable to load cache: '') s)
      in s'\<lparr>cachePath := cPath\<rparr>)"

text \<open>Lines 270 to 300: from the test of \<^verbatim>\<open>info.IsDir()\<close> on.\<close>

definition prepare_directory ::
  "host \<Rightarrow> startup_world \<Rightarrow> string \<Rightarrow> fileinfo option \<Rightarrow> state \<Rightarrow> error option outcome \<times> state" where
  "prepare_directory h w cPath info s =
     (case info of
        None \<Rightarrow> (Panics ''invalid memory address or nil pointer dereference'', s)
      | Some i \<Rightarrow>
          if \<not> IsDir i then
            (Returns (Some (ErrorsNew (''Cache path '' @ [CHR 0x27] @ cPath @ [CHR 0x27]
                @ '' already exists, but is a file instead of directory''))), s)
          else
            (let s1 = emit (WriteFile (filepath_Join h cPath ''test'') (NotJson ''test'') perm_0700) s
             in case write_test w of
                  Some err \<Rightarrow>
                    (Returns (Some (ErrorsNew
                       (''Unable to write file into cache directory: '' @ Error err))), s1)
                | None \<Rightarrow>
                    (let s2 = emit (Remove (filepath_Join h cPath ''test'')) s1
                     in case remove_test w of
                          Some err \<Rightarrow>
                            (Returns (Some (ErrorsNew
                               (''Unable to delete file in cache directory: '' @ Error err))), s2)
                        | None \<Rightarrow> (Returns None, load_cache h w cPath s2))))"

definition startBuildManager ::
  "host \<Rightarrow> startup_world \<Rightarrow> string \<Rightarrow> state \<Rightarrow> error option outcome \<times> state" where
  "startBuildManager h w cPath s =
     (if stat_err (stat_clientSource w) \<noteq> None
         \<or> \<not> (case stat_info (stat_clientSource w) of Some i \<Rightarrow> IsDir i | None \<Rightarrow> False) then
        (Returns (Some (Errorf
           ''The server doesnt appear to be in {project_root}/bin, please put it there.'' [])), s)
      else
        (let s1 = emit (Exec ''go'' [''tool'', ''dist'', ''list''] None) s
         in case dist_list_err w of
              Some err \<Rightarrow>
                (Returns (Some (Errorf
                   ''Unable to run the go compiler to get a list of compilation targets: %s''
                   [Error err])), s1)
            | None \<Rightarrow>
                (let s2 = load_catalog (dist_list_output w) s1
                 in if os_IsNotExist (stat_err (stat_cPath w)) then
                      (let s3 = emit (Mkdir cPath perm_0700) s2
                       in case mkdir_cPath w of
                            Some err \<Rightarrow> (Returns (Some (Os err)), s3)
                          | None \<Rightarrow>
                              prepare_directory h w cPath (stat_info (stat_cPath_again w)) s3)
                    else prepare_directory h w cPath (stat_info (stat_cPath w)) s2)))"

text \<open>
  Two notions for the statements about startup: that the run comes to line 270 (the client
  source is a directory, the tool listed its targets, and the directory was made if it
  did not exist), and what \<^verbatim>\<open>info\<close> holds there (the second \<^verbatim>\<open>os.Stat\<close> when the
  first said the path does not exist, else the first).
\<close>

definition info_at_270 :: "startup_world \<Rightarrow> fileinfo option" where
  "info_at_270 w =
     (if os_IsNotExist (stat_err (stat_cPath w)) then stat_info (stat_cPath_again w)
      else stat_info (stat_cPath w))"

definition reaches_270 :: "startup_world \<Rightarrow> bool" where
  "reaches_270 w =
     (stat_clientSource w = Inr (FileInfo True) \<and> dist_list_err w = None
      \<and> (os_IsNotExist (stat_err (stat_cPath w)) \<longrightarrow> mkdir_cPath w = None))"

section \<open>Example inputs\<close>

text \<open>
  A host, a state and an outside world on which the theorems below are exercised: a linux
  host, the target catalog of \<^verbatim>\<open>linux/amd64\<close> and \<^verbatim>\<open>windows/amd64\<close>, the cache
  directory \<^verbatim>\<open>/cache\<close> and one cached artifact under the name \<^verbatim>\<open>a\<close>.  The
  sample matcher knows the pattern \<^verbatim>\<open>*\<close>, takes \<^verbatim>\<open>[\<close> for malformed and
  compares every other pattern with the name.
\<close>

definition example_file :: "file" where
  "example_file = \<lparr>Path = ''/cache/Zk3'', Goos = ''linux'', Goarch = ''amd64'',
     FileType = ''executable'', Hits = 0, Version = ''v2.4.1''\<rparr>"

definition example_host :: host where
  "example_host = \<lparr>webserverOn = True, defaultConnectBack = ''host.example:443'',
     defaultFingerPrint = ''ab12'', projectRoot = ''/srv/rssh'', internal_Version = ''v2.4.1'',
     runtime_GOOS = ''linux'', runtime_GOARCH = ''amd64'',
     filepath_Join = (\<lambda>a b. a @ ''/'' @ dropWhile (\<lambda>c. c = CHR ''/'') b),
     glob = (\<lambda>p n. if p = ''['' then None else Some (p = ''*'' \<or> p = n))\<rparr>"

definition example_state :: state where
  "example_state = \<lparr>validPlatforms = fmap_of_list [(''linux'', True), (''windows'', True)],
     validArchs = fmap_of_list [(''amd64'', True)],
     cache = fmap_of_list [(''a'', example_file)], cachePath = ''/cache'', effects = []\<rparr>"

definition example_world :: build_world where
  "example_world = \<lparr>rand_filename = Inr ''Qx7'', rand_name = Inr ''n9P'',
     git_describe = Inl (OsError False ''exit status 128''),
     os_Environ = [''PATH=/bin''], go_build_output = [], go_build_err = None\<rparr>"

text \<open>A cached artifact whose hit counter has reached the largest \<^verbatim>\<open>int\<close>.\<close>

definition worn_file :: "file" where
  "worn_file = example_file\<lparr>Hits := 0x7FFFFFFFFFFFFFFF\<rparr>"

definition worn_state :: state where
  "worn_state = example_state\<lparr>cache := fmap_of_list [(''a'', worn_file)]\<rparr>"

text \<open>An answer of \<^verbatim>\<open>os.Remove\<close> that refuses to remove the file.\<close>

definition refused_removal :: "oserror option" where
  "refused_removal = Some (OsError False ''remove /cache/Zk3: permission denied'')"

text \<open>The same host running darwin.\<close>

definition darwin_host :: host where
  "darwin_host = example_host\<lparr>runtime_GOOS := ''darwin''\<rparr>"

text \<open>
  A startup in which everything succeeds except the first \<^verbatim>\<open>os.Stat\<close> of the cache
  directory, which is refused, and in which there is no snapshot yet.
\<close>

definition example_startup :: startup_world where
  "example_startup = \<lparr>stat_clientSource = Inr (FileInfo True),
     dist_list_output = ''linux/amd64'' @ [CHR 0x0A] @ ''windows/amd64'' @ [CHR 0x0A],
     dist_list_err = None,
     stat_cPath = Inl (OsError False ''stat /cache: permission denied''),
     mkdir_cPath = None,
     stat_cPath_again = Inr (FileInfo True),
     write_test = None, remove_test = None,
     read_description = Inl (OsError True ''open /cache/description.json: no such file or directory'')\<rparr>"

definition empty_state :: state where
  "empty_state = \<lparr>validPlatforms = fmempty, validArchs = fmempty, cache = fmempty,
     cachePath = [], effects = []\<rparr>"

text \<open>
  A cache whose one key is the byte \<^verbatim>\<open>0xE9\<close>, the letter e with an acute accent as a
  Latin-1 terminal sends it; it is not valid UTF-8.
\<close>

definition latin1_cache :: "(string, file) fmap" where
  "latin1_cache = fmap_of_list [([CHR 0xE9], example_file)]"

text \<open>
  A state whose cache holds two records, one under a key of two bytes that are the UTF-8
  of the letter e with an acute accent, one with the largest hit counter and the output of
  \<^verbatim>\<open>git describe\<close>, newline included, as its version.
\<close>

definition utf8_state :: state where
  "utf8_state = example_state\<lparr>cache := fmap_of_list
     [([CHR 0xC3, CHR 0xA9], example_file),
      (''a'', worn_file\<lparr>Version := ''v2.4.1-3-g1a2b3c'' @ [CHR 0x0A]\<rparr>)]\<rparr>"

section \<open>Facts about splitting\<close>

lemma Split_nonempty: "Split sep s \<noteq> []"
  by (induction s) (auto split: list.splits)

lemma length_Split: "length (Split sep s) = Suc (count_list s sep)"
  by (induction s) (auto split: list.splits simp: Split_nonempty)

lemma Split_no_sep: "sep \<notin> set s \<Longrightarrow> Split sep s = [s]"
  by (induction s) auto

lemma Split_append_sep:
  "sep \<notin> set a \<Longrightarrow> Split sep (a @ sep # b) = a # Split sep b"
  by (induction a) auto

lemma Split_pieces_no_sep: "p \<in> set (Split sep s) \<Longrightarrow> sep \<notin> set p"
  by (induction s arbitrary: p) (auto split: if_splits list.splits)

lemma Split_two:
  "Split sep s = [a, b] \<longleftrightarrow> s = a @ sep # b \<and> sep \<notin> set a \<and> sep \<notin> set b"
proof
  assume h: "Split sep s = [a, b]"
  then show "s = a @ sep # b \<and> sep \<notin> set a \<and> sep \<notin> set b"
  proof (induction s arbitrary: a)
    case Nil
    then show ?case by simp
  next
    case (Cons x xs)
    show ?case
    proof (cases "x = sep")
      case True
      with Cons.prems have a: "a = []" and b: "Split sep xs = [b]" by auto
      from b have "count_list xs sep = 0"
        using length_Split [of sep xs] by simp
      then have nb: "sep \<notin> set xs" by (simp add: count_list_0_iff)
      with b have "xs = b" by (simp add: Split_no_sep)
      with a nb True show ?thesis by simp
    next
      case False
      with Cons.prems obtain p where p: "Split sep xs = [p, b]" and a: "a = x # p"
        by (auto split: list.splits)
      from Cons.IH [OF p] a False show ?thesis by simp
    qed
  qed
next
  assume "s = a @ sep # b \<and> sep \<notin> set a \<and> sep \<notin> set b"
  then show "Split sep s = [a, b]"
    by (simp add: Split_append_sep Split_no_sep)
qed

lemma takeWhile_upto_sep:
  "sep \<notin> set a \<Longrightarrow> takeWhile (\<lambda>c. c \<noteq> sep) (a @ sep # b) = a"
  by (induction a) auto

lemma dropWhile_upto_sep:
  "sep \<notin> set a \<Longrightarrow> dropWhile (\<lambda>c. c \<noteq> sep) (a @ sep # b) = sep # b"
  by (induction a) auto

lemma SplitN2_two:
  "SplitN2 sep s = [a, b] \<longleftrightarrow> s = a @ sep # b \<and> sep \<notin> set a"
proof
  assume h: "SplitN2 sep s = [a, b]"
  then obtain c rest where d: "dropWhile (\<lambda>c. c \<noteq> sep) s = c # rest"
    and a: "a = takeWhile (\<lambda>c. c \<noteq> sep) s" and b: "b = rest"
    by (auto simp: SplitN2_def split: list.splits)
  from d have "c = sep"
    using hd_dropWhile [of "\<lambda>c. c \<noteq> sep" s] by auto
  with d a b have "s = a @ sep # b"
    using takeWhile_dropWhile_id [of "\<lambda>c. c \<noteq> sep" s] by simp
  moreover from a have "sep \<notin> set a"
    by (auto dest: set_takeWhileD)
  ultimately show "s = a @ sep # b \<and> sep \<notin> set a" by simp
next
  assume h: "s = a @ sep # b \<and> sep \<notin> set a"
  then have "takeWhile (\<lambda>c. c \<noteq> sep) s = a" "dropWhile (\<lambda>c. c \<noteq> sep) s = sep # b"
    by (simp_all add: takeWhile_upto_sep dropWhile_upto_sep)
  then show "SplitN2 sep s = [a, b]"
    by (simp add: SplitN2_def)
qed

lemma length_SplitN2:
  "length (SplitN2 sep s) = (if sep \<in> set s then 2 else 1)"
proof (cases "dropWhile (\<lambda>c. c \<noteq> sep) s")
  case Nil
  then have "sep \<notin> set s" by (auto simp: dropWhile_eq_Nil_conv)
  then show ?thesis unfolding SplitN2_def Nil by simp
next
  case (Cons c rest)
  then have "c = sep"
    using hd_dropWhile [of "\<lambda>c. c \<noteq> sep" s] by auto
  with Cons have "sep \<in> set s"
    using set_dropWhileD [of sep "\<lambda>c. c \<noteq> sep" s] by simp
  then show ?thesis unfolding SplitN2_def Cons by simp
qed


section \<open>The credential parser accepts exactly DOMAIN, backslash, USER, colon, PASS\<close>

lemma parse_Inr_iff:
  "parseNTLMCreds creds = Inr (d, u, p) \<longleftrightarrow>
     (\<exists>rest. Split backslash creds = [d, rest] \<and> SplitN2 CHR '':'' rest = [u, p])"
proof (cases "creds = []")
  case True
  then show ?thesis by (simp add: parseNTLMCreds_def)
next
  case False
  show ?thesis
  proof (cases "\<exists>d' rest. Split backslash creds = [d', rest]")
    case True
    then obtain d' rest where s: "Split backslash creds = [d', rest]" by blast
    show ?thesis
    proof (cases "\<exists>u' p'. SplitN2 CHR '':'' rest = [u', p']")
      case True
      then obtain u' p' where t: "SplitN2 CHR '':'' rest = [u', p']" by blast
      with s False show ?thesis by (auto simp: parseNTLMCreds_def)
    next
      case n: False
      with s False have "isl (parseNTLMCreds creds)"
        by (auto simp: parseNTLMCreds_def split: list.splits)
      with s n show ?thesis by auto
    qed
  next
    case n: False
    with False have "isl (parseNTLMCreds creds)"
      by (auto simp: parseNTLMCreds_def split: list.splits)
    with n show ?thesis by auto
  qed
qed

lemma parse_Inl_shape:
  "isl (parseNTLMCreds creds) \<Longrightarrow> \<exists>f ops. parseNTLMCreds creds = Inl (Errorf f ops)"
  by (auto simp: parseNTLMCreds_def split: list.splits if_splits)

lemma parse_accepts_iff:
  "\<not> isl (parseNTLMCreds creds) \<longleftrightarrow>
     count_list creds backslash = 1 \<and>
     CHR '':'' \<in> set (tl (dropWhile (\<lambda>c. c \<noteq> backslash) creds))"
proof
  assume "\<not> isl (parseNTLMCreds creds)"
  then obtain d u p where "parseNTLMCreds creds = Inr (d, u, p)"
    by (cases "parseNTLMCreds creds") auto
  then obtain rest where s: "Split backslash creds = [d, rest]"
    and t: "SplitN2 CHR '':'' rest = [u, p]"
    by (auto simp: parse_Inr_iff)
  from s have c: "count_list creds backslash = 1"
    using length_Split [of backslash creds] by simp
  from s have "creds = d @ backslash # rest" "backslash \<notin> set d"
    by (simp_all add: Split_two)
  then have "tl (dropWhile (\<lambda>c. c \<noteq> backslash) creds) = rest"
    by (simp add: dropWhile_upto_sep)
  moreover from t have "CHR '':'' \<in> set rest"
    using length_SplitN2 [of "CHR '':''" rest] by (auto split: if_splits)
  ultimately show "count_list creds backslash = 1 \<and>
     CHR '':'' \<in> set (tl (dropWhile (\<lambda>c. c \<noteq> backslash) creds))"
    using c by simp
next
  assume h: "count_list creds backslash = 1 \<and>
     CHR '':'' \<in> set (tl (dropWhile (\<lambda>c. c \<noteq> backslash) creds))"
  then have "length (Split backslash creds) = 2"
    by (simp add: length_Split)
  then obtain d rest where s: "Split backslash creds = [d, rest]"
    by (auto simp: length_Suc_conv numeral_2_eq_2)
  then have "creds = d @ backslash # rest" "backslash \<notin> set d"
    by (simp_all add: Split_two)
  then have "tl (dropWhile (\<lambda>c. c \<noteq> backslash) creds) = rest"
    by (simp add: dropWhile_upto_sep)
  with h have "length (SplitN2 CHR '':'' rest) = 2"
    by (simp add: length_SplitN2)
  then obtain u p where "SplitN2 CHR '':'' rest = [u, p]"
    by (auto simp: length_Suc_conv numeral_2_eq_2)
  with s have "parseNTLMCreds creds = Inr (d, u, p)"
    by (auto simp: parse_Inr_iff)
  then show "\<not> isl (parseNTLMCreds creds)" by simp
qed

text \<open>
  Claim C9.  \<^verbatim>\<open>parseNTLMCreds\<close> accepts a string exactly when it holds exactly one
  backslash and the part after the backslash holds a colon.  It returns
  \<open>(domain, user, pass)\<close> exactly when the string is \<open>domain\<close>, a backslash, \<open>user\<close>, a
  colon and \<open>pass\<close>, where no part holds a backslash and \<open>user\<close> holds no colon
  (\<open>pass\<close> may hold colons).  Every other string, the empty one among them, gets an
  error built by \<^verbatim>\<open>fmt.Errorf\<close>.
\<close>

theorem parseNTLMCreds_accepts_exactly:
  "(\<not> isl (parseNTLMCreds creds) \<longleftrightarrow>
      count_list creds backslash = 1 \<and>
      CHR '':'' \<in> set (tl (dropWhile (\<lambda>c. c \<noteq> backslash) creds)))
   \<and> (parseNTLMCreds creds = Inr (domain, user, pass) \<longleftrightarrow>
      creds = domain @ backslash # user @ CHR '':'' # pass
      \<and> backslash \<notin> set domain \<and> backslash \<notin> set user \<and> CHR '':'' \<notin> set user
      \<and> backslash \<notin> set pass)
   \<and> (isl (parseNTLMCreds creds) \<longrightarrow> (\<exists>f ops. parseNTLMCreds creds = Inl (Errorf f ops)))
   \<and> parseNTLMCreds [] =
       Inl (Errorf (''NTLM credentials not provided. Use --ntlm-proxy-creds in format ''
                      @ credsFormat) [])"
proof -
  have "parseNTLMCreds creds = Inr (domain, user, pass) \<longleftrightarrow>
      creds = domain @ backslash # user @ CHR '':'' # pass
      \<and> backslash \<notin> set domain \<and> backslash \<notin> set user \<and> CHR '':'' \<notin> set user
      \<and> backslash \<notin> set pass"
    by (auto simp: parse_Inr_iff Split_two SplitN2_two)
  moreover have "parseNTLMCreds [] =
       Inl (Errorf (''NTLM credentials not provided. Use --ntlm-proxy-creds in format ''
                      @ credsFormat) [])"
    by (simp add: parseNTLMCreds_def)
  ultimately show ?thesis
    using parse_accepts_iff [of creds] parse_Inl_shape [of creds] by blast
qed

theorem parseNTLMCreds_accepts_exactly_witness:
  "parseNTLMCreds (''CORP'' @ [backslash] @ ''alice:pa:ss'') = Inr (''CORP'', ''alice'', ''pa:ss'')
   \<and> \<not> isl (parseNTLMCreds (''CORP'' @ [backslash] @ ''alice:pa:ss''))
   \<and> count_list (''CORP'' @ [backslash] @ ''alice:pa:ss'') backslash = 1
   \<and> isl (parseNTLMCreds ''CORP/alice:pass'')
   \<and> (\<exists>f ops. parseNTLMCreds ''CORP/alice:pass'' = Inl (Errorf f ops))"
  using parseNTLMCreds_accepts_exactly [of "''CORP'' @ [backslash] @ ''alice:pa:ss''" "''CORP''" "''alice''" "''pa:ss''"]
    parseNTLMCreds_accepts_exactly [of "''CORP/alice:pass''" "[]" "[]" "[]"]
  by simp


section \<open>Build: the gates before the lock\<close>

lemma Build_gate:
  "Build h w goos goarch addr fp name shared s =
     (Inl (Errorf (if \<not> webserverOn h then ''Web server is not enabled.''
                   else if goarch \<noteq> [] \<and> \<not> index_bool (validArchs s) goarch
                     then ''GOARCH supplied is not valid: '' @ goarch
                   else ''GOOS supplied is not valid: '' @ goos) []), s)"
  if "\<not> webserverOn h \<or> (goarch \<noteq> [] \<and> \<not> index_bool (validArchs s) goarch)
       \<or> (goos \<noteq> [] \<and> \<not> index_bool (validPlatforms s) goos)"
  using that by (auto simp: Build_def)

text \<open>
  Claim C1, as the code has it.  When the architecture is given and not in the catalog, or
  the operating system is given and not in the catalog, \<^verbatim>\<open>Build\<close> fails and changes
  nothing, the cache included.  The error is built by \<^verbatim>\<open>fmt.Errorf\<close> from one string,
  the value appended to the text: it is about the web server when that is not enabled;
  else it is about the architecture when the architecture is the unknown one, whatever
  the operating system; else it is about the operating system.  So
  \<^verbatim>\<open>Build("darwin","arm64",...)\<close> against a catalog without \<^verbatim>\<open>darwin\<close> names
  \<^verbatim>\<open>darwin\<close> only when \<^verbatim>\<open>arm64\<close> is in the catalog.
\<close>

theorem Build_rejects_unknown_target:
  assumes "(goarch \<noteq> [] \<and> \<not> index_bool (validArchs s) goarch)
             \<or> (goos \<noteq> [] \<and> \<not> index_bool (validPlatforms s) goos)"
  shows "Build h w goos goarch addr fp name shared s =
     (Inl (Errorf (if \<not> webserverOn h then ''Web server is not enabled.''
                   else if goarch \<noteq> [] \<and> \<not> index_bool (validArchs s) goarch
                     then ''GOARCH supplied is not valid: '' @ goarch
                   else ''GOOS supplied is not valid: '' @ goos) []), s)"
  using assms by (intro Build_gate) blast

theorem Build_rejects_unknown_target_witness:
  "\<not> index_bool (validPlatforms example_state) ''darwin''
   \<and> Build example_host example_world ''darwin'' ''amd64'' [] [] [] False example_state =
       (Inl (Errorf ''GOOS supplied is not valid: darwin'' []), example_state)"
  using Build_rejects_unknown_target [of "''amd64''" example_state "''darwin''" example_host
      example_world "[]" "[]" "[]" False]
  by (simp add: example_state_def example_host_def index_bool_def)

theorem Build_names_arch_not_os_counterexample:
  "\<not> index_bool (validPlatforms example_state) ''darwin''
   \<and> webserverOn example_host
   \<and> Build example_host example_world ''darwin'' ''arm64'' [] [] [] False example_state =
       (Inl (Errorf ''GOARCH supplied is not valid: arm64'' []), example_state)
   \<and> \<not> sublist ''darwin'' ''GOARCH supplied is not valid: arm64''"
proof -
  have "\<not> sublist ''darwin'' ''GOARCH supplied is not valid: arm64''"
    by code_simp
  then show ?thesis
    by (simp add: Build_def example_state_def example_host_def index_bool_def)
qed


section \<open>Build: a name that is taken\<close>

lemma Build_name_taken:
  assumes "webserverOn h"
    and "goarch = [] \<or> index_bool (validArchs s) goarch"
    and "goos = [] \<or> index_bool (validPlatforms s) goos"
    and "rand_filename w = Inr filename"
    and "(if name = [] then rand_name w else Inr name) = Inr key"
    and "fmlookup (cache s) key = Some f"
  shows "Build h w goos goarch addr fp name shared s =
           (Inl (ErrorsNew ''This link name is already in use''), s)"
  using assms by (auto simp: Build_def)

lemma Build_fails_on_taken_name:
  assumes "(if name = [] then rand_name w else Inr name) = Inr key"
    and "fmlookup (cache s) key = Some f"
  shows "isl (fst (Build h w goos goarch addr fp name shared s))
         \<and> snd (Build h w goos goarch addr fp name shared s) = s"
  using assms by (auto simp: Build_def split: sum.splits)

text \<open>
  Claim C2, as the code has it.  The name \<^verbatim>\<open>Build\<close> works with is the one supplied, or
  when none is supplied the random one.  When that name is a key of the cache,
  \<^verbatim>\<open>Build\<close> fails and changes nothing: the entry is not overwritten and its record is
  the same.  The error is the one of the name collision once the gates before the test of
  the name are passed: the web server is enabled, the architecture and the operating
  system are each empty or in the catalog, and the random file name was generated.
\<close>

theorem Build_name_collision:
  assumes "fmlookup (cache s) key = Some f"
    and "(if name = [] then rand_name w else Inr name) = Inr key"
  shows "isl (fst (Build h w goos goarch addr fp name shared s))
     \<and> snd (Build h w goos goarch addr fp name shared s) = s
     \<and> fmlookup (cache (snd (Build h w goos goarch addr fp name shared s))) key = Some f
     \<and> (webserverOn h \<and> (goarch = [] \<or> index_bool (validArchs s) goarch)
          \<and> (goos = [] \<or> index_bool (validPlatforms s) goos)
          \<and> \<not> isl (rand_filename w)
        \<longrightarrow> fst (Build h w goos goarch addr fp name shared s) =
              Inl (ErrorsNew ''This link name is already in use''))"
proof -
  have a: "isl (fst (Build h w goos goarch addr fp name shared s))
         \<and> snd (Build h w goos goarch addr fp name shared s) = s"
    using assms by (intro Build_fails_on_taken_name)
  have b: "fst (Build h w goos goarch addr fp name shared s) =
              Inl (ErrorsNew ''This link name is already in use'')"
    if "webserverOn h" "goarch = [] \<or> index_bool (validArchs s) goarch"
       "goos = [] \<or> index_bool (validPlatforms s) goos" "\<not> isl (rand_filename w)"
  proof -
    from that(4) obtain filename where "rand_filename w = Inr filename"
      by (cases "rand_filename w") auto
    with that assms show ?thesis
      by (simp add: Build_name_taken [where key = key and f = f and filename = filename])
  qed
  from a b assms(1) show ?thesis by simp
qed

theorem Build_name_collision_witness:
  "fmlookup (cache example_state) ''a'' = Some example_file
   \<and> Build example_host example_world ''windows'' ''amd64'' [] [] ''a'' True example_state =
       (Inl (ErrorsNew ''This link name is already in use''), example_state)
   \<and> Build example_host (example_world\<lparr>rand_name := Inr ''a''\<rparr>) [] [] [] [] [] False example_state =
       (Inl (ErrorsNew ''This link name is already in use''), example_state)"
proof -
  have l: "fmlookup (cache example_state) ''a'' = Some example_file"
    by (simp add: example_state_def)
  have g: "webserverOn example_host" "index_bool (validArchs example_state) ''amd64''"
    "index_bool (validPlatforms example_state) ''windows''"
    "\<not> isl (rand_filename example_world)"
    "\<not> isl (rand_filename (example_world\<lparr>rand_name := Inr ''a''\<rparr>))"
    by (simp_all add: example_host_def example_state_def example_world_def index_bool_def)
  have 1: "Build example_host example_world ''windows'' ''amd64'' [] [] ''a'' True example_state =
       (Inl (ErrorsNew ''This link name is already in use''), example_state)"
    using Build_name_collision [of example_state "''a''" example_file "''a''" example_world
        example_host "''windows''" "''amd64''" "[]" "[]" True] l g
    by (simp add: prod_eq_iff)
  have 2: "Build example_host (example_world\<lparr>rand_name := Inr ''a''\<rparr>) [] [] [] [] [] False example_state =
       (Inl (ErrorsNew ''This link name is already in use''), example_state)"
    using Build_name_collision [of example_state "''a''" example_file "[]"
        "example_world\<lparr>rand_name := Inr ''a''\<rparr>" example_host "[]" "[]" "[]" "[]" False] l g
    by (simp add: prod_eq_iff)
  from l 1 2 show ?thesis by simp
qed

theorem Build_validation_precedes_collision_counterexample:
  "fmlookup (cache example_state) ''a'' = Some example_file
   \<and> webserverOn example_host
   \<and> Build example_host example_world ''darwin'' [] [] [] ''a'' False example_state =
       (Inl (Errorf ''GOOS supplied is not valid: darwin'' []), example_state)
   \<and> Errorf ''GOOS supplied is not valid: darwin'' [] \<noteq> ErrorsNew ''This link name is already in use''"
  by (simp add: Build_def example_state_def example_host_def index_bool_def)


section \<open>Get\<close>

lemma Get_found:
  "fmlookup (cache s) key = Some f \<Longrightarrow>
     Get key s = (Inr (f\<lparr>Hits := Hits f + 1\<rparr>),
                  s\<lparr>cache := fmupd key (f\<lparr>Hits := Hits f + 1\<rparr>) (cache s)\<rparr>)"
  by (simp add: Get_def Let_def)

lemma Get_absent:
  "fmlookup (cache s) key = None \<Longrightarrow>
     Get key s = (Inl (ErrorsNew (''Unable to find cache entry: '' @ key)), s)"
  by (simp add: Get_def)

lemma sint_succ_64:
  fixes x :: "64 word"
  assumes "sint x \<noteq> 2 ^ 63 - 1"
  shows "sint (x + 1) = sint x + 1"
proof -
  have "- (2 ^ 63) \<le> sint x" "sint x < 2 ^ 63"
    using sint_ge [of x] sint_lt [of x] by simp_all
  with assms have "- (2 ^ 63) \<le> sint x + 1" "sint x + 1 < 2 ^ 63"
    by simp_all
  then have "signed_take_bit 63 (sint x + 1) = sint x + 1"
    by (rule signed_take_bit_int_eq_self)
  then show ?thesis
    by (simp add: sint_word_add)
qed

lemma sint_succ_64_max:
  fixes x :: "64 word"
  assumes "sint x = 2 ^ 63 - 1"
  shows "sint (x + 1) = - (2 ^ 63)"
proof -
  have "x = word_of_int (sint x)" by simp
  with assms have "x = word_of_int (2 ^ 63 - 1)" by simp
  then have "x + 1 = (word_of_int (2 ^ 63) :: 64 word)" by simp
  then show ?thesis by simp
qed

text \<open>
  Claim C5, as the code has it.  \<^verbatim>\<open>Get\<close> on a key that is absent fails with the
  not-found error and changes nothing.  On a key that is present it returns the record
  with the hit counter one step further and stores it; a second call returns the same
  record two steps further, with the same path, operating system, architecture and
  version.  \<^verbatim>\<open>Get\<close> has no effect on the outside world, so the snapshot is not
  rewritten.  The step is \<^verbatim>\<open>Hits++\<close> on an \<^verbatim>\<open>int\<close>: the counter grows by one unless
  it is the largest \<^verbatim>\<open>int\<close>, and from there it wraps to the smallest.
\<close>

theorem Get_counts_hits:
  "(fmlookup (cache s) key = None \<longrightarrow>
      Get key s = (Inl (ErrorsNew (''Unable to find cache entry: '' @ key)), s))
   \<and> (fmlookup (cache s) key = Some f \<longrightarrow>
      fst (Get key s) = Inr (f\<lparr>Hits := Hits f + 1\<rparr>)
      \<and> fst (Get key (snd (Get key s))) = Inr (f\<lparr>Hits := Hits f + 2\<rparr>)
      \<and> cache (snd (Get key s)) = fmupd key (f\<lparr>Hits := Hits f + 1\<rparr>) (cache s)
      \<and> effects (snd (Get key s)) = effects s
      \<and> (sint (Hits f) \<noteq> 2 ^ 63 - 1 \<longrightarrow> sint (Hits f + 1) = sint (Hits f) + 1)
      \<and> (sint (Hits f) = 2 ^ 63 - 1 \<longrightarrow> sint (Hits f + 1) = - (2 ^ 63)))"
proof -
  have "fst (Get key (snd (Get key s))) = Inr (f\<lparr>Hits := Hits f + 2\<rparr>)"
    if "fmlookup (cache s) key = Some f"
  proof -
    let ?s = "s\<lparr>cache := fmupd key (f\<lparr>Hits := Hits f + 1\<rparr>) (cache s)\<rparr>"
    have "fmlookup (cache ?s) key = Some (f\<lparr>Hits := Hits f + 1\<rparr>)" by simp
    then have "fst (Get key ?s) = Inr (f\<lparr>Hits := Hits f + 1 + 1\<rparr>)"
      by (simp add: Get_found)
    with that show ?thesis by (simp add: Get_found)
  qed
  then show ?thesis
    by (simp add: Get_found Get_absent sint_succ_64 sint_succ_64_max)
qed

theorem Get_counts_hits_witness:
  "fmlookup (cache example_state) ''a'' = Some example_file
   \<and> fst (Get ''a'' example_state) = Inr (example_file\<lparr>Hits := 1\<rparr>)
   \<and> fst (Get ''a'' (snd (Get ''a'' example_state))) = Inr (example_file\<lparr>Hits := 2\<rparr>)
   \<and> sint (Hits example_file) \<noteq> 2 ^ 63 - 1
   \<and> sint (Hits example_file + 1) = 1
   \<and> fmlookup (cache example_state) ''b'' = None
   \<and> Get ''b'' example_state = (Inl (ErrorsNew ''Unable to find cache entry: b''), example_state)
   \<and> fmlookup (cache worn_state) ''a'' = Some worn_file
   \<and> sint (Hits worn_file) = 2 ^ 63 - 1
   \<and> sint (Hits worn_file + 1) = - (2 ^ 63)"
proof -
  have l: "fmlookup (cache example_state) ''a'' = Some example_file"
    "fmlookup (cache example_state) ''b'' = None"
    "fmlookup (cache worn_state) ''a'' = Some worn_file"
    by (simp_all add: example_state_def worn_state_def)
  have h: "Hits example_file = 0" "sint (Hits worn_file) = 2 ^ 63 - 1"
    by (simp_all add: example_file_def worn_file_def)
  show ?thesis
    using Get_counts_hits [of example_state "''a''" example_file]
      Get_counts_hits [of example_state "''b''" example_file]
      Get_counts_hits [of worn_state "''a''" worn_file] l h
    by simp
qed

theorem Get_hits_wrap_counterexample:
  "fmlookup (cache worn_state) ''a'' = Some worn_file
   \<and> fst (Get ''a'' worn_state) = Inr (worn_file\<lparr>Hits := 0x8000000000000000\<rparr>)
   \<and> fmlookup (cache (snd (Get ''a'' worn_state))) ''a''
       = Some (worn_file\<lparr>Hits := 0x8000000000000000\<rparr>)
   \<and> sint (Hits worn_file) = 9223372036854775807
   \<and> sint (Hits (worn_file\<lparr>Hits := 0x8000000000000000\<rparr>)) = - 9223372036854775808"
  by (simp add: Get_def Let_def worn_state_def worn_file_def example_file_def)


section \<open>List\<close>

lemma List_loop_lookup:
  "fmlookup (List_loop h filter' c ids acc) k =
     (if k \<in> set ids \<and> (filter' = [] \<or> kept h filter' c k) then Some (index_file c k)
      else fmlookup acc k)"
  by (induction ids arbitrary: acc) (auto simp: kept_def)

lemma index_file_lookup:
  "k |\<in>| fmdom c \<Longrightarrow> fmlookup c k = Some (index_file c k)"
  by (auto simp: index_file_def fmlookup_dom_iff)

lemma List_loop_all_keys:
  assumes "set ids = fset (fmdom c)"
  shows "List_loop h filter' c ids fmempty =
           fmfilter (\<lambda>k. filter' = [] \<or> kept h filter' c k) c"
proof (rule fmap_ext)
  fix k
  show "fmlookup (List_loop h filter' c ids fmempty) k =
          fmlookup (fmfilter (\<lambda>k. filter' = [] \<or> kept h filter' c k) c) k"
  proof (cases "k |\<in>| fmdom c")
    case True
    with assms show ?thesis
      by (simp add: List_loop_lookup index_file_lookup)
  next
    case False
    then have "fmlookup c k = None" by (simp add: fmdom_notD)
    with False assms show ?thesis
      by (simp add: List_loop_lookup)
  qed
qed

lemma List_well_formed:
  assumes "filepath_Match h filter' [] \<noteq> None"
  shows "List h filter' s = Inr (fmfilter (\<lambda>k. filter' = [] \<or> kept h filter' (cache s) k) (cache s))"
proof -
  from assms obtain b where "filepath_Match h filter' [] = Some b" by auto
  then show ?thesis
    by (simp add: List_def List_loop_all_keys)
qed

lemma List_malformed:
  "filepath_Match h filter' [] = None \<Longrightarrow>
     List h filter' s = Inl (Errorf ''Filter is not well formed'' [])"
  by (simp add: List_def)

lemma List_empty_filter: "List h [] s = Inr (cache s)"
proof -
  have "filepath_Match h [] [] \<noteq> None" by (simp add: filepath_Match_def)
  then show ?thesis by (simp add: List_well_formed)
qed

text \<open>
  Claim C6.  \<^verbatim>\<open>List\<close> with the empty filter returns every record of the cache.  With
  a filter that is not empty and is well formed (\<^verbatim>\<open>filepath.Match\<close> of the filter and
  the empty name gives no error, which is the test \<^verbatim>\<open>List\<close> makes) it returns exactly
  the records whose key, operating system or architecture matches the filter.  With a
  malformed filter it fails with the error of the malformed filter and returns no map.
\<close>

theorem List_returns_matching_records:
  "List h [] s = Inr (cache s)
   \<and> (filter' \<noteq> [] \<and> filepath_Match h filter' [] \<noteq> None \<longrightarrow>
        List h filter' s = Inr (fmfilter (kept h filter' (cache s)) (cache s)))
   \<and> (filepath_Match h filter' [] = None \<longrightarrow>
        List h filter' s = Inl (Errorf ''Filter is not well formed'' []))"
  by (simp add: List_empty_filter List_malformed List_well_formed)

theorem List_returns_matching_records_witness:
  "List example_host ''*'' example_state = Inr (cache example_state)
   \<and> List example_host ''linux'' example_state = Inr (cache example_state)
   \<and> List example_host ''b'' example_state = Inr fmempty
   \<and> List example_host ''['' example_state = Inl (Errorf ''Filter is not well formed'' [])"
proof -
  have m: "filepath_Match example_host ''*'' [] \<noteq> None"
    "filepath_Match example_host ''linux'' [] \<noteq> None"
    "filepath_Match example_host ''b'' [] \<noteq> None"
    "filepath_Match example_host ''['' [] = None"
    by (simp_all add: filepath_Match_def example_host_def)
  have k: "kept example_host ''*'' (cache example_state) ''a''"
    "kept example_host ''linux'' (cache example_state) ''a''"
    "\<not> kept example_host ''b'' (cache example_state) ''a''"
    by (simp_all add: kept_def matches_def filepath_Match_def example_host_def
        example_state_def example_file_def index_file_def)
  have c: "cache example_state = fmupd ''a'' example_file fmempty"
    by (simp add: example_state_def)
  show ?thesis
    using List_returns_matching_records [of example_host example_state "''*''"]
      List_returns_matching_records [of example_host example_state "''linux''"]
      List_returns_matching_records [of example_host example_state "''b''"]
      List_returns_matching_records [of example_host example_state "''[''"] m k
    unfolding c by simp
qed


section \<open>Delete\<close>

lemma Delete_present:
  "fmlookup (cache s) key = Some f \<Longrightarrow>
     Delete h removed key s =
       (map_option Os removed,
        s\<lparr>cache := fmdrop key (cache s),
          effects := effects s @
            [WriteFile (filepath_Join h (cachePath s) cacheDescriptionFile)
               (Document (json_Marshal (fmdrop key (cache s)))) perm_0700,
             Autocomplete_Remove key,
             Remove (Path f)]\<rparr>)"
  by (simp add: Delete_def Let_def writeCache_def emit_def)

lemma Delete_absent:
  "fmlookup (cache s) key = None \<Longrightarrow>
     Delete h removed key s = (Some (ErrorsNew (''Unable to find cache entry: '' @ key)), s)"
  by (simp add: Delete_def)

lemma List_without_key:
  assumes "fmlookup (cache s) key = None" and "List h filter' s = Inr m"
  shows "fmlookup m key = None"
proof -
  from assms(2) have "filepath_Match h filter' [] \<noteq> None"
    by (auto simp: List_def split: option.splits)
  with assms show ?thesis
    by (auto simp: List_well_formed)
qed

text \<open>
  Claim C4.  \<^verbatim>\<open>Delete\<close> on an absent key fails with the not-found error and changes
  nothing.  On a key that is present it removes the entry from the map, writes the
  snapshot of the map without the entry, tells the completion index and only then removes
  the file of the artifact; what it returns is the error of that removal, if any.  The
  cache and the snapshot written do not depend on whether the removal succeeds:
  afterwards \<^verbatim>\<open>Get\<close> of the key fails with the not-found error and no \<^verbatim>\<open>List\<close>
  returns the key.
\<close>

theorem Delete_removes_entry_first:
  "(fmlookup (cache s) key = None \<longrightarrow>
      Delete h removed key s = (Some (ErrorsNew (''Unable to find cache entry: '' @ key)), s))
   \<and> (fmlookup (cache s) key = Some f \<longrightarrow>
      fst (Delete h removed key s) = map_option Os removed
      \<and> cache (snd (Delete h removed key s)) = fmdrop key (cache s)
      \<and> effects (snd (Delete h removed key s)) = effects s @
            [WriteFile (filepath_Join h (cachePath s) cacheDescriptionFile)
               (Document (json_Marshal (fmdrop key (cache s)))) perm_0700,
             Autocomplete_Remove key,
             Remove (Path f)]
      \<and> fst (Get key (snd (Delete h removed key s))) =
            Inl (ErrorsNew (''Unable to find cache entry: '' @ key))
      \<and> (\<forall>m. List h filter' (snd (Delete h removed key s)) = Inr m \<longrightarrow> fmlookup m key = None))"
proof -
  have "fmlookup m key = None"
    if "fmlookup (cache s) key = Some f" "List h filter' (snd (Delete h removed key s)) = Inr m"
    for m
  proof -
    from that(1) have "fmlookup (cache (snd (Delete h removed key s))) key = None"
      by (simp add: Delete_present)
    from this that(2) show ?thesis by (rule List_without_key)
  qed
  then show ?thesis
    by (auto simp: Delete_present Delete_absent Get_def)
qed

theorem Delete_removes_entry_first_witness:
  "fmlookup (cache example_state) ''a'' = Some example_file
   \<and> fst (Delete example_host refused_removal ''a'' example_state) = map_option Os refused_removal
   \<and> cache (snd (Delete example_host refused_removal ''a'' example_state)) = fmempty
   \<and> fst (Get ''a'' (snd (Delete example_host refused_removal ''a'' example_state)))
       = Inl (ErrorsNew ''Unable to find cache entry: a'')
   \<and> List example_host [] (snd (Delete example_host refused_removal ''a'' example_state))
       = Inr fmempty
   \<and> fmlookup (cache example_state) ''b'' = None
   \<and> Delete example_host None ''b'' example_state
       = (Some (ErrorsNew ''Unable to find cache entry: b''), example_state)"
proof -
  have l: "fmlookup (cache example_state) ''a'' = Some example_file"
    "fmlookup (cache example_state) ''b'' = None"
    "fmdrop ''a'' (cache example_state) = fmempty"
    by (simp_all add: example_state_def fmdrop_fmupd)
  have d: "cache (snd (Delete example_host refused_removal ''a'' example_state)) = fmempty"
    using Delete_removes_entry_first [of example_state "''a''" example_host refused_removal
        example_file "[]"] l
    by simp
  then have e: "List example_host [] (snd (Delete example_host refused_removal ''a'' example_state))
       = Inr fmempty"
    by (simp add: List_empty_filter)
  show ?thesis
    using Delete_removes_entry_first [of example_state "''a''" example_host refused_removal
        example_file "[]"]
      Delete_removes_entry_first [of example_state "''b''" example_host None example_file "[]"]
      l d e
    by simp
qed


section \<open>Build: the environment of the compiler\<close>

lemma Build_reaches_compiler:
  assumes "webserverOn h"
    and "goarch = [] \<or> index_bool (validArchs s) goarch"
    and "goos = [] \<or> index_bool (validPlatforms s) goos"
    and "rand_filename w = Inr filename"
    and "(if name = [] then rand_name w else Inr name) = Inr key"
    and "fmlookup (cache s) key = None"
  shows "Build h w goos goarch addr fp name shared s =
           Build_run h w filename goos goarch
             (if addr = [] then defaultConnectBack h else addr)
             (if fp = [] then defaultFingerPrint h else fp) key shared s"
  using assms by (auto simp: Build_def Let_def)

lemma Build_run_effects:
  "take 2 (drop (length (effects s))
      (effects (snd (Build_run h w filename goos goarch addr fp key shared s)))) =
       [Exec ''git'' [''describe'', ''--tags''] None,
        Exec ''go''
          (Build_arguments h (Build_file h w s filename goos goarch shared) addr fp shared)
          (Some (Build_env h w (Build_file h w s filename goos goarch shared) shared))]"
  by (cases "go_build_err w") (simp_all add: Build_run_def Let_def emit_def writeCache_def)

lemma Build_file_target:
  "Goos (Build_file h w s filename goos goarch shared) = (if goos = [] then runtime_GOOS h else goos)"
  "Goarch (Build_file h w s filename goos goarch shared) = (if goarch = [] then runtime_GOARCH h else goarch)"
  by (simp_all add: Build_file_def Let_def)

text \<open>
  Claim C7, as the code has it.  Take a \<^verbatim>\<open>Build\<close> of a shared object that passes the
  gates and whose name is free.  The compiler is started with the environment of the
  process followed by \<^verbatim>\<open>GOOS\<close>, \<^verbatim>\<open>GOARCH\<close>, \<^verbatim>\<open>CC\<close> and \<^verbatim>\<open>CGO_ENABLED=1\<close>.
  \<^verbatim>\<open>CC\<close> is \<^verbatim>\<open>x86_64-w64-mingw32-gcc\<close> exactly when the host runs linux (whatever its
  architecture) and the target is \<^verbatim>\<open>windows/amd64\<close>; for every other host and target
  \<^verbatim>\<open>CC\<close> is set to the empty string, which names no compiler.
\<close>

theorem Build_cross_compiler:
  assumes "webserverOn h"
    and "goarch = [] \<or> index_bool (validArchs s) goarch"
    and "goos = [] \<or> index_bool (validPlatforms s) goos"
    and "rand_filename w = Inr filename"
    and "(if name = [] then rand_name w else Inr name) = Inr key"
    and "fmlookup (cache s) key = None"
    and "target_os = (if goos = [] then runtime_GOOS h else goos)"
    and "target_arch = (if goarch = [] then runtime_GOARCH h else goarch)"
    and "f = Build_file h w s filename goos goarch True"
  shows "take 2 (drop (length (effects s))
           (effects (snd (Build h w goos goarch addr fp name True s)))) =
         [Exec ''git'' [''describe'', ''--tags''] None,
          Exec ''go''
            (Build_arguments h f (if addr = [] then defaultConnectBack h else addr)
               (if fp = [] then defaultFingerPrint h else fp) True)
            (Some (os_Environ w @
               [''GOOS='' @ target_os,
                ''GOARCH='' @ target_arch,
                ''CC='' @ (if runtime_GOOS h = ''linux'' \<and> target_os = ''windows''
                              \<and> target_arch = ''amd64''
                           then ''x86_64-w64-mingw32-gcc'' else []),
                ''CGO_ENABLED=1'']))]"
proof -
  let ?a = "if addr = [] then defaultConnectBack h else addr"
  let ?p = "if fp = [] then defaultFingerPrint h else fp"
  have b: "Build h w goos goarch addr fp name True s =
      Build_run h w filename goos goarch ?a ?p key True s"
    using assms(1-6) by (rule Build_reaches_compiler)
  have e: "Build_env h w f True = os_Environ w @
               [''GOOS='' @ target_os,
                ''GOARCH='' @ target_arch,
                ''CC='' @ (if runtime_GOOS h = ''linux'' \<and> target_os = ''windows''
                              \<and> target_arch = ''amd64''
                           then ''x86_64-w64-mingw32-gcc'' else []),
                ''CGO_ENABLED=1'']"
    using assms(7-9) by (simp add: Build_env_def crossCompiler_def Build_file_target)
  from Build_run_effects [of s h w filename goos goarch ?a ?p key True]
  show ?thesis unfolding b e assms(9) [symmetric] .
qed

theorem Build_cross_compiler_witness:
  "take 2 (drop (length (effects example_state))
     (effects (snd (Build example_host example_world ''windows'' ''amd64'' [] [] [] True example_state)))) =
         [Exec ''git'' [''describe'', ''--tags''] None,
          Exec ''go''
           [''build'', ''-buildmode=c-shared'', ''-tags=cshared'',
            ''-ldflags=-s -w -X main.destination=host.example:443 -X main.fingerprint=ab12 -X client.Version=v2.4.1 (guess)'',
            ''-o'', ''/cache/Qx7.dll'', ''/srv/rssh/cmd/client'']
            (Some [''PATH=/bin'', ''GOOS=windows'', ''GOARCH=amd64'',
                   ''CC=x86_64-w64-mingw32-gcc'', ''CGO_ENABLED=1''])]"
proof -
  have g: "webserverOn example_host"
    "''amd64'' = [] \<or> index_bool (validArchs example_state) ''amd64''"
    "''windows'' = [] \<or> index_bool (validPlatforms example_state) ''windows''"
    "rand_filename example_world = Inr ''Qx7''"
    "(if [] = [] then rand_name example_world else Inr []) = Inr ''n9P''"
    "fmlookup (cache example_state) ''n9P'' = None"
    "''windows'' = (if ''windows'' = [] then runtime_GOOS example_host else ''windows'')"
    "''amd64'' = (if ''amd64'' = [] then runtime_GOARCH example_host else ''amd64'')"
    "Build_file example_host example_world example_state ''Qx7'' ''windows'' ''amd64'' True
       = Build_file example_host example_world example_state ''Qx7'' ''windows'' ''amd64'' True"
    by (simp_all add: example_host_def example_state_def example_world_def index_bool_def)
  have v: "runtime_GOOS example_host = ''linux''" "os_Environ example_world = [''PATH=/bin'']"
    "Build_arguments example_host
       (Build_file example_host example_world example_state ''Qx7'' ''windows'' ''amd64'' True)
       (defaultConnectBack example_host) (defaultFingerPrint example_host) True
     = [''build'', ''-buildmode=c-shared'', ''-tags=cshared'',
            ''-ldflags=-s -w -X main.destination=host.example:443 -X main.fingerprint=ab12 -X client.Version=v2.4.1 (guess)'',
            ''-o'', ''/cache/Qx7.dll'', ''/srv/rssh/cmd/client'']"
    by (simp_all add: example_host_def example_world_def example_state_def Build_arguments_def
        Build_file_def Let_def)
  from Build_cross_compiler [OF g, of "[]" "[]"] v show ?thesis by simp
qed

theorem Build_cross_compiler_linux_only_counterexample:
  "runtime_GOOS darwin_host \<noteq> ''windows'' \<and> runtime_GOARCH darwin_host = ''amd64''
   \<and> fst (Build darwin_host example_world ''windows'' ''amd64'' [] [] [] True example_state)
       = Inr ''http://host.example:443/n9P''
   \<and> effects (snd (Build darwin_host example_world ''windows'' ''amd64'' [] [] [] True example_state)) ! 1
       = Exec ''go''
           [''build'', ''-buildmode=c-shared'', ''-tags=cshared'',
            ''-ldflags=-s -w -X main.destination=host.example:443 -X main.fingerprint=ab12 -X client.Version=v2.4.1 (guess)'',
            ''-o'', ''/cache/Qx7.dll'', ''/srv/rssh/cmd/client'']
           (Some [''PATH=/bin'', ''GOOS=windows'', ''GOARCH=amd64'', ''CC='', ''CGO_ENABLED=1''])"
  by (simp add: Build_def Build_run_def Build_file_def Build_arguments_def Build_env_def
      crossCompiler_def Let_def emit_def writeCache_def darwin_host_def example_host_def
      example_state_def example_world_def index_bool_def)


section \<open>Startup: the cache directory\<close>

lemma prepare_directory_nil:
  "fst (prepare_directory h w cPath None s) = Panics ''invalid memory address or nil pointer dereference''"
  by (simp add: prepare_directory_def)

lemma prepare_directory_file:
  "fst (prepare_directory h w cPath info s) =
     Returns (Some (ErrorsNew (''Cache path '' @ [CHR 0x27] @ cPath @ [CHR 0x27]
                @ '' already exists, but is a file instead of directory'')))
   \<longleftrightarrow> info = Some (FileInfo False)"
proof (cases info)
  case None
  then show ?thesis by (simp add: prepare_directory_def)
next
  case (Some i)
  obtain d where i: "i = FileInfo d" by (cases i)
  show ?thesis
  proof (cases d)
    case True
    with Some i show ?thesis
      by (auto simp: prepare_directory_def Let_def split: option.splits)
  next
    case False
    with Some i show ?thesis by (simp add: prepare_directory_def)
  qed
qed

lemma startBuildManager_at_270:
  assumes "reaches_270 w"
  shows "fst (startBuildManager h w cPath s) =
     fst (prepare_directory h w cPath (info_at_270 w)
       (if os_IsNotExist (stat_err (stat_cPath w))
        then emit (Mkdir cPath perm_0700)
               (load_catalog (dist_list_output w) (emit (Exec ''go'' [''tool'', ''dist'', ''list''] None) s))
        else load_catalog (dist_list_output w) (emit (Exec ''go'' [''tool'', ''dist'', ''list''] None) s)))"
  using assms
  by (simp add: startBuildManager_def reaches_270_def info_at_270_def stat_err_def stat_info_def Let_def)

lemma startBuildManager_before_270:
  assumes "\<not> reaches_270 w"
  shows "\<exists>e. fst (startBuildManager h w cPath s) = Returns (Some e) \<and> (\<forall>t. e \<noteq> ErrorsNew t)"
proof (cases "stat_clientSource w = Inr (FileInfo True)")
  case False
  then have "stat_err (stat_clientSource w) \<noteq> None
         \<or> \<not> (case stat_info (stat_clientSource w) of Some i \<Rightarrow> IsDir i | None \<Rightarrow> False)"
  proof (cases "stat_clientSource w")
    case (Inl e)
    then show ?thesis by (simp add: stat_err_def)
  next
    case (Inr i)
    obtain d where "i = FileInfo d" by (cases i)
    with Inr False show ?thesis by (simp add: stat_info_def)
  qed
  then show ?thesis by (simp add: startBuildManager_def)
next
  case True
  then have c: "\<not> (stat_err (stat_clientSource w) \<noteq> None
         \<or> \<not> (case stat_info (stat_clientSource w) of Some i \<Rightarrow> IsDir i | None \<Rightarrow> False))"
    by (simp add: stat_err_def stat_info_def)
  show ?thesis
  proof (cases "dist_list_err w")
    case (Some err)
    with c show ?thesis by (simp add: startBuildManager_def Let_def)
  next
    case None
    with True assms obtain err where "os_IsNotExist (stat_err (stat_cPath w))" "mkdir_cPath w = Some err"
      by (auto simp: reaches_270_def)
    with c None show ?thesis by (simp add: startBuildManager_def Let_def)
  qed
qed

text \<open>
  Claim C10.  When the client source is a directory and the tool listed its targets, and
  \<^verbatim>\<open>os.Stat\<close> of the cache directory fails with an error other than does-not-exist,
  \<^verbatim>\<open>startBuildManager\<close> calls \<^verbatim>\<open>IsDir\<close> on the nil \<^verbatim>\<open>FileInfo\<close> and panics; it
  returns no error.  The error of the path that is a file is returned exactly when line
  270 is reached with a \<^verbatim>\<open>FileInfo\<close> that is not of a directory.
\<close>

theorem startBuildManager_nil_FileInfo:
  "(stat_clientSource w = Inr (FileInfo True) \<and> dist_list_err w = None
      \<and> stat_cPath w = Inl e \<and> \<not> is_not_exist e
     \<longrightarrow> fst (startBuildManager h w cPath s)
           = Panics ''invalid memory address or nil pointer dereference'')
   \<and> (fst (startBuildManager h w cPath s)
        = Returns (Some (ErrorsNew (''Cache path '' @ [CHR 0x27] @ cPath @ [CHR 0x27]
                @ '' already exists, but is a file instead of directory'')))
      \<longleftrightarrow> reaches_270 w \<and> info_at_270 w = Some (FileInfo False))"
proof -
  have "fst (startBuildManager h w cPath s)
           = Panics ''invalid memory address or nil pointer dereference''"
    if "stat_clientSource w = Inr (FileInfo True)" "dist_list_err w = None"
       "stat_cPath w = Inl e" "\<not> is_not_exist e"
  proof -
    from that have "reaches_270 w" "info_at_270 w = None"
      by (simp_all add: reaches_270_def info_at_270_def os_IsNotExist_def stat_err_def stat_info_def)
    then show ?thesis
      by (simp add: startBuildManager_at_270 prepare_directory_nil)
  qed
  moreover have "fst (startBuildManager h w cPath s)
        = Returns (Some (ErrorsNew (''Cache path '' @ [CHR 0x27] @ cPath @ [CHR 0x27]
                @ '' already exists, but is a file instead of directory'')))
      \<longleftrightarrow> reaches_270 w \<and> info_at_270 w = Some (FileInfo False)"
  proof (cases "reaches_270 w")
    case True
    let ?S = "if os_IsNotExist (stat_err (stat_cPath w))
        then emit (Mkdir cPath perm_0700)
               (load_catalog (dist_list_output w) (emit (Exec ''go'' [''tool'', ''dist'', ''list''] None) s))
        else load_catalog (dist_list_output w) (emit (Exec ''go'' [''tool'', ''dist'', ''list''] None) s)"
    have "fst (startBuildManager h w cPath s) = fst (prepare_directory h w cPath (info_at_270 w) ?S)"
      using True by (rule startBuildManager_at_270)
    with True prepare_directory_file [of h w cPath "info_at_270 w" ?S] show ?thesis
      by simp
  next
    case False
    from startBuildManager_before_270 [OF this, of h cPath s] False show ?thesis
      by auto
  qed
  ultimately show ?thesis by blast
qed

theorem startBuildManager_nil_FileInfo_witness:
  "stat_cPath example_startup = Inl (OsError False ''stat /cache: permission denied'')
   \<and> fst (startBuildManager example_host example_startup ''/cache'' empty_state)
       = Panics ''invalid memory address or nil pointer dereference''
   \<and> reaches_270 (example_startup\<lparr>stat_cPath := Inr (FileInfo False)\<rparr>)
   \<and> fst (startBuildManager example_host (example_startup\<lparr>stat_cPath := Inr (FileInfo False)\<rparr>)
        ''/cache'' empty_state)
       = Returns (Some (ErrorsNew (''Cache path '' @ [CHR 0x27] @ ''/cache'' @ [CHR 0x27]
                @ '' already exists, but is a file instead of directory'')))"
proof -
  have a: "stat_clientSource example_startup = Inr (FileInfo True)"
    "dist_list_err example_startup = None"
    "stat_cPath example_startup = Inl (OsError False ''stat /cache: permission denied'')"
    "\<not> is_not_exist (OsError False ''stat /cache: permission denied'')"
    by (simp_all add: example_startup_def)
  have b: "reaches_270 (example_startup\<lparr>stat_cPath := Inr (FileInfo False)\<rparr>)"
    "info_at_270 (example_startup\<lparr>stat_cPath := Inr (FileInfo False)\<rparr>) = Some (FileInfo False)"
    by (simp_all add: reaches_270_def info_at_270_def example_startup_def os_IsNotExist_def
        stat_err_def stat_info_def)
  show ?thesis
    using startBuildManager_nil_FileInfo [of example_startup
        "OsError False ''stat /cache: permission denied''" example_host "''/cache''" empty_state]
      startBuildManager_nil_FileInfo [of "example_startup\<lparr>stat_cPath := Inr (FileInfo False)\<rparr>"
        "OsError False ''stat /cache: permission denied''" example_host "''/cache''" empty_state]
      a b
    by simp
qed


section \<open>The snapshot, saved and loaded\<close>

lemma unmarshal_int_sint: "unmarshal_int (JNumber (sint (n :: 64 word))) = Some n"
  using sint_ge [of n] sint_lt [of n] by (simp add: unmarshal_int_def)

lemma unmarshal_string_valid:
  "utf8_valid t \<Longrightarrow> unmarshal_string (JString (coerce_utf8 t)) = Some t"
  by (simp add: unmarshal_string_def utf8_valid_def)

lemma unmarshal_marshal_file:
  assumes "file_exact f"
  shows "unmarshal_file (marshal_file f) = (f, None)"
proof -
  obtain p os arch ft n v where f: "f = \<lparr>Path = p, Goos = os, Goarch = arch, FileType = ft, Hits = n, Version = v\<rparr>"
    by (cases f)
  with assms have "utf8_valid p" "utf8_valid os" "utf8_valid arch" "utf8_valid ft" "utf8_valid v"
    by (simp_all add: file_exact_def)
  then show ?thesis
    by (simp add: f unmarshal_file_def marshal_file_def unmarshal_field_def zero_file_def
        unmarshal_string_valid unmarshal_int_sint)
qed

lemma fold_unmarshal_entry:
  assumes "\<forall>k \<in> set ks. utf8_valid k \<and> file_exact (index_file m k)"
  shows "fold unmarshal_entry (map (\<lambda>k. (coerce_utf8 k, marshal_file (index_file m k))) ks) (m0, None)
       = (fold (\<lambda>k. fmupd k (index_file m k)) ks m0, None)"
  using assms
proof (induction ks arbitrary: m0)
  case Nil
  then show ?case by simp
next
  case (Cons k ks)
  then have "utf8_valid k" "file_exact (index_file m k)" by simp_all
  then have "unmarshal_entry (coerce_utf8 k, marshal_file (index_file m k)) (m0, None)
      = (fmupd k (index_file m k) m0, None)"
    by (simp add: unmarshal_entry_def unmarshal_marshal_file first_error_def utf8_valid_def)
  with Cons show ?case by simp
qed

lemma lookup_fold_fmupd:
  "fmlookup (fold (\<lambda>k. fmupd k (g k)) ks m0) x =
     (if x \<in> set ks then Some (g x) else fmlookup m0 x)"
  by (induction ks arbitrary: m0) auto

lemma fold_fmupd_all_keys:
  assumes "set ks = fset (fmdom m)"
  shows "fold (\<lambda>k. fmupd k (index_file m k)) ks m0 = m0 ++\<^sub>f m"
proof (rule fmap_ext)
  fix x
  show "fmlookup (fold (\<lambda>k. fmupd k (index_file m k)) ks m0) x = fmlookup (m0 ++\<^sub>f m) x"
  proof (cases "x |\<in>| fmdom m")
    case True
    then have "fmlookup m x = Some (index_file m x)"
      by (auto simp: index_file_def fmlookup_dom_iff)
    with True assms show ?thesis by (simp add: lookup_fold_fmupd)
  next
    case False
    with assms show ?thesis by (simp add: lookup_fold_fmupd)
  qed
qed

lemma Unmarshal_Marshal:
  assumes "snapshot_exact m"
  shows "json_Unmarshal (Document (json_Marshal m)) m0 = (None, m0 ++\<^sub>f m)"
proof -
  let ?ks = "sorted_list_of_fset (fmdom m)"
  have k: "set ?ks = fset (fmdom m)" by simp
  with assms have "\<forall>k \<in> set ?ks. utf8_valid k \<and> file_exact (index_file m k)"
    by (simp add: snapshot_exact_def)
  then have "fold unmarshal_entry (map (\<lambda>k. (coerce_utf8 k, marshal_file (index_file m k))) ?ks) (m0, None)
       = (fold (\<lambda>k. fmupd k (index_file m k)) ?ks m0, None)"
    by (rule fold_unmarshal_entry)
  also have "fold (\<lambda>k. fmupd k (index_file m k)) ?ks m0 = m0 ++\<^sub>f m"
    using k by (rule fold_fmupd_all_keys)
  finally show ?thesis
    by (simp add: json_Unmarshal_def json_Marshal_def)
qed

lemma cache_fold_emit: "cache (fold (\<lambda>k. emit (g k)) ks s) = cache s"
  by (induction ks arbitrary: s) (simp_all add: emit_def)

lemma load_cache_cache:
  assumes "read_description w = Inr content"
  shows "cache (load_cache h w cPath s) = snd (json_Unmarshal content (cache s))"
proof (cases "json_Unmarshal content (cache s)")
  case (Pair err m)
  with assms show ?thesis
    by (cases err) (simp_all add: load_cache_def Let_def cache_fold_emit emit_def)
qed

text \<open>
  Claim C3, as the code has it.  \<^verbatim>\<open>writeCache\<close> writes the document
  \<^verbatim>\<open>json.Marshal\<close> makes of the whole map.  When the keys of the map and the path,
  operating system, architecture, kind and version of every record are valid UTF-8,
  \<^verbatim>\<open>json.Unmarshal\<close> of that document into an empty map gives the map back, and so
  does the startup of a process that reads the document and whose cache is empty: the
  same keys, and under each key the same six fields.  (A byte that is not valid UTF-8 is
  replaced on the way.)
\<close>

theorem snapshot_round_trip:
  assumes "snapshot_exact (cache s)"
    and "read_description w = Inr (Document (json_Marshal (cache s)))"
    and "cache s0 = fmempty"
  shows "effects (writeCache h s) = effects s @
           [WriteFile (filepath_Join h (cachePath s) cacheDescriptionFile)
              (Document (json_Marshal (cache s))) perm_0700]
     \<and> json_Unmarshal (Document (json_Marshal (cache s))) fmempty = (None, cache s)
     \<and> cache (load_cache h w cPath s0) = cache s"
  using assms
  by (simp add: writeCache_def emit_def Unmarshal_Marshal load_cache_cache)

theorem snapshot_round_trip_witness:
  "snapshot_exact (cache utf8_state)
   \<and> json_Unmarshal (Document (json_Marshal (cache utf8_state))) fmempty
        = (None, cache utf8_state)
   \<and> cache (load_cache example_host
         (example_startup\<lparr>read_description := Inr (Document (json_Marshal (cache utf8_state)))\<rparr>)
         ''/cache'' empty_state) = cache utf8_state"
proof -
  have a: "snapshot_exact (cache utf8_state)" by code_simp
  have b: "read_description
         (example_startup\<lparr>read_description := Inr (Document (json_Marshal (cache utf8_state)))\<rparr>)
       = Inr (Document (json_Marshal (cache utf8_state)))"
    "cache empty_state = fmempty"
    by (simp_all add: empty_state_def)
  from snapshot_round_trip [OF a b, of example_host "''/cache''"] a show ?thesis by simp
qed
theorem snapshot_invalid_utf8_counterexample:
  "json_Unmarshal (Document (json_Marshal latin1_cache)) fmempty
     = (None, fmap_of_list [([CHR 0xEF, CHR 0xBF, CHR 0xBD], example_file)])
   \<and> fmlookup latin1_cache [CHR 0xE9] = Some example_file
   \<and> fmlookup (snd (json_Unmarshal (Document (json_Marshal latin1_cache)) fmempty)) [CHR 0xE9] = None"
  by code_simp

end
